theory Spec2Isabelle
  imports Main
begin

unbundle bit_operations_syntax

section \<open>Byte strings and the library calls of the program\<close>

text \<open>
  A Go \<^verbatim>\<open>string\<close> is a sequence of bytes; it is modelled as \<^typ>\<open>string\<close>, a list of
  8-bit characters. The functions of this section model the standard library calls that
  \<^verbatim>\<open>unseal.go\<close> makes, from the library's documentation. The program only ever
  passes them a non-empty separator (\<^verbatim>\<open>"\r\n"\<close>, \<^verbatim>\<open>"\n"\<close>, \<^verbatim>\<open>"="\<close>).
\<close>

definition CR :: char where
  "CR = CHR 0x0D"

definition LF :: char where
  "LF = CHR 0x0A"

text \<open>\<^verbatim>\<open>strings.HasPrefix(s, prefix)\<close>.\<close>

definition HasPrefix :: "string \<Rightarrow> string \<Rightarrow> bool" where
  "HasPrefix s p = (take (length p) s = p)"

text \<open>
  \<^verbatim>\<open>strings.Index(s, sep)\<close>: the index of the first instance of \<open>sep\<close> in \<open>s\<close>;
  Go's \<open>-1\<close> (no instance) is \<open>None\<close>.
\<close>

primrec Index :: "string \<Rightarrow> string \<Rightarrow> nat option" where
  "Index [] sep = (if sep = [] then Some 0 else None)"
| "Index (c # cs) sep =
     (if HasPrefix (c # cs) sep then Some 0 else map_option Suc (Index cs sep))"

text \<open>
  \<^verbatim>\<open>strings.ReplaceAll(s, old, new)\<close> for a non-empty \<open>old\<close>: the non-overlapping
  instances of \<open>old\<close> are replaced from left to right. (With an empty \<open>old\<close> Go inserts
  \<open>new\<close> around every UTF-8 sequence; the program never does that, and the model leaves
  \<open>s\<close> as it is there.)
\<close>

function ReplaceAll :: "string \<Rightarrow> string \<Rightarrow> string \<Rightarrow> string" where
  "ReplaceAll s old new =
     (if old = [] \<or> s = [] then s
      else if HasPrefix s old then new @ ReplaceAll (drop (length old) s) old new
      else hd s # ReplaceAll (tl s) old new)"
  by pat_completeness auto
termination
  by (relation "measure (\<lambda>(s, old, new). length s)") auto

text \<open>
  The loop of \<^verbatim>\<open>strings.genSplit\<close>: at most \<open>k\<close> cuts at the first instances of
  \<open>sep\<close>, the rest of the string being the last element.
\<close>

fun splitLoop :: "nat \<Rightarrow> string \<Rightarrow> string \<Rightarrow> string list" where
  "splitLoop 0 s sep = [s]"
| "splitLoop (Suc k) s sep =
     (case Index s sep of
        None \<Rightarrow> [s]
      | Some m \<Rightarrow> take m s # splitLoop k (drop (m + length sep) s) sep)"

text \<open>
  \<^verbatim>\<open>strings.SplitN(s, sep, n)\<close> for a non-empty \<open>sep\<close>: \<open>n = 0\<close> gives no element,
  \<open>n > 0\<close> at most \<open>n\<close> elements, \<open>n < 0\<close> all of them. A string of \<open>length s\<close> bytes
  holds at most \<open>length s\<close> instances of a non-empty separator, which is the bound Go
  puts on \<open>n\<close> (\<^verbatim>\<open>if n > len(s)+1 { n = len(s)+1 }\<close>).
\<close>

definition SplitN :: "string \<Rightarrow> string \<Rightarrow> int \<Rightarrow> string list" where
  "SplitN s sep n =
     (if n = 0 then []
      else if n < 0 \<or> n > int (length s) + 1 then splitLoop (length s) s sep
      else splitLoop (nat (n - 1)) s sep)"

text \<open>\<^verbatim>\<open>strings.Split(s, sep)\<close> is \<^verbatim>\<open>SplitN(s, sep, -1)\<close>.\<close>

definition Split :: "string \<Rightarrow> string \<Rightarrow> string list" where
  "Split s sep = SplitN s sep (- 1)"

text \<open>
  \<^verbatim>\<open>strings.TrimSpace(s)\<close> removes the leading and trailing white space, as Unicode
  defines it. On the bytes of a string these are the UTF-8 encodings of U+0009 to U+000D,
  U+0020, U+0085, U+00A0, U+1680, U+2000 to U+200A, U+2028, U+2029, U+202F, U+205F and
  U+3000.
\<close>

definition whiteSpace :: "string list" where
  "whiteSpace =
     [[CHR 0x09], [CHR 0x0A], [CHR 0x0B], [CHR 0x0C], [CHR 0x0D], [CHR 0x20],
      [CHR 0xC2, CHR 0x85], [CHR 0xC2, CHR 0xA0], [CHR 0xE1, CHR 0x9A, CHR 0x80],
      [CHR 0xE2, CHR 0x80, CHR 0x80], [CHR 0xE2, CHR 0x80, CHR 0x81],
      [CHR 0xE2, CHR 0x80, CHR 0x82], [CHR 0xE2, CHR 0x80, CHR 0x83],
      [CHR 0xE2, CHR 0x80, CHR 0x84], [CHR 0xE2, CHR 0x80, CHR 0x85],
      [CHR 0xE2, CHR 0x80, CHR 0x86], [CHR 0xE2, CHR 0x80, CHR 0x87],
      [CHR 0xE2, CHR 0x80, CHR 0x88], [CHR 0xE2, CHR 0x80, CHR 0x89],
      [CHR 0xE2, CHR 0x80, CHR 0x8A], [CHR 0xE2, CHR 0x80, CHR 0xA8],
      [CHR 0xE2, CHR 0x80, CHR 0xA9], [CHR 0xE2, CHR 0x80, CHR 0xAF],
      [CHR 0xE2, CHR 0x81, CHR 0x9F], [CHR 0xE3, CHR 0x80, CHR 0x80]]"

text \<open>The white space a string starts with, if any (encodings are prefix-free).\<close>

definition leadingSpace :: "string \<Rightarrow> string option" where
  "leadingSpace s = find (HasPrefix s) whiteSpace"

function TrimLeft :: "string \<Rightarrow> string" where
  "TrimLeft s =
     (case leadingSpace s of
        None \<Rightarrow> s
      | Some sp \<Rightarrow> if sp = [] then s else TrimLeft (drop (length sp) s))"
  by pat_completeness auto
termination
proof (relation "measure length")
  show "wf (measure length)"
    by simp
next
  fix s sp :: string
  assume found: "leadingSpace s = Some sp" and "sp \<noteq> []"
  from found have "HasPrefix s sp"
    by (auto simp: leadingSpace_def find_Some_iff)
  with \<open>sp \<noteq> []\<close> have "s \<noteq> []"
    by (auto simp: HasPrefix_def)
  with \<open>sp \<noteq> []\<close> show "(drop (length sp) s, s) \<in> measure length"
    by simp
qed

text \<open>
  A string ends with the encoding of a white space character exactly when its reversal
  starts with the reversed encoding, so the right end is trimmed on the reversal.
\<close>

definition trailingSpace :: "string \<Rightarrow> string option" where
  "trailingSpace s = find (\<lambda>sp. HasPrefix (rev s) (rev sp)) whiteSpace"

function TrimRight :: "string \<Rightarrow> string" where
  "TrimRight s =
     (case trailingSpace s of
        None \<Rightarrow> s
      | Some sp \<Rightarrow> if sp = [] then s else TrimRight (take (length s - length sp) s))"
  by pat_completeness auto
termination
proof (relation "measure length")
  show "wf (measure length)"
    by simp
next
  fix s sp :: string
  assume found: "trailingSpace s = Some sp" and "sp \<noteq> []"
  from found have "HasPrefix (rev s) (rev sp)"
    by (auto simp: trailingSpace_def find_Some_iff)
  with \<open>sp \<noteq> []\<close> have "s \<noteq> []"
    by (auto simp: HasPrefix_def)
  with \<open>sp \<noteq> []\<close> show "(take (length s - length sp) s, s) \<in> measure length"
    by simp
qed

definition TrimSpace :: "string \<Rightarrow> string" where
  "TrimSpace s = TrimRight (TrimLeft s)"

text \<open>
  The recursive equations are unfolded on request only; closed terms are evaluated with
  the code equations.
\<close>

declare ReplaceAll.simps [simp del] TrimLeft.simps [simp del] TrimRight.simps [simp del]

section \<open>The environment codec: \<^verbatim>\<open>parseEnvironment\<close>\<close>

text \<open>
  A Go \<^verbatim>\<open>map[string]string\<close> is a partial function from keys to values. The body of
  the loop of \<^verbatim>\<open>parseEnvironment\<close> takes the map built so far and one line \<open>v\<close>:
  \<^verbatim>\<open>
    if v == strings.TrimSpace("") { continue }
    splitVar := strings.SplitN(v, "=", 2)
    if len(splitVar) > 1 { vars[splitVar[0]] = splitVar[1] }
  \<close>
  The two index reads are guarded by the length test, so they are in range.
\<close>

type_synonym vars = "string \<rightharpoonup> string"

definition parseLine :: "vars \<Rightarrow> string \<Rightarrow> vars" where
  "parseLine vars v =
     (if v = TrimSpace [] then vars
      else let splitVar = SplitN v ''='' 2
           in if length splitVar > 1 then vars(splitVar ! 0 \<mapsto> splitVar ! 1) else vars)"

text \<open>The lines the loop ranges over.\<close>

definition envLines :: "string \<Rightarrow> string list" where
  "envLines raw = Split (ReplaceAll raw [CR, LF] [LF]) [LF]"

definition parseEnvironment :: "string \<Rightarrow> vars" where
  "parseEnvironment raw = foldl parseLine Map.empty (envLines raw)"

section \<open>The machine: files, environment, processes\<close>

text \<open>
  The program acts on the file system, the process environment, its standard streams,
  the system's random source and the external programs it runs (\<^verbatim>\<open>gpg\<close>, the editor,
  the wrapped command). All of it is one explicit state, passed through every function.
  A Go \<^verbatim>\<open>error\<close> is the text of its \<^verbatim>\<open>Error()\<close>; \<^verbatim>\<open>nil\<close> is \<open>None\<close>.
\<close>

type_synonym path = string

datatype error = Err string

fun errorText :: "error \<Rightarrow> string" where
  "errorText (Err s) = s"

record inode =
  content :: string
  perm :: nat

type_synonym files = "path \<rightharpoonup> inode"

text \<open>The calls into the operating system, as the log of a run records them.\<close>

datatype syscall =
    SysLstat path
  | SysCreate path
  | SysChmod path nat
  | SysWriteString path string
  | SysClose path
  | SysRemove path
  | SysRename path path
  | SysReadFile path
  | SysWriteFile path string nat
  | SysRandRead nat
  | SysExec string "string list"

text \<open>
  A call can fail for reasons outside the model (permissions, a full disk, a rename across
  devices). \<open>Fault e\<close> makes the call fail with \<open>e\<close> before it has changed anything;
  \<open>ShortWrite k e\<close> makes a write fail with \<open>e\<close> after \<open>k\<close> bytes have reached the
  file (for a call that writes nothing it is \<open>Fault e\<close>).
\<close>

datatype fault = NoFault | Fault error | ShortWrite nat error

fun faultError :: "fault \<Rightarrow> error option" where
  "faultError NoFault = None"
| "faultError (Fault e) = Some e"
| "faultError (ShortWrite k e) = Some e"

text \<open>
  What running an external program comes to: \<open>NotRun e\<close> when a pipe, the start or the
  reading of the output failed (\<^verbatim>\<open>system\<close> returns \<^verbatim>\<open>"", "", err\<close> in all of
  them), \<open>Ran out err st\<close> when the child wrote \<open>out\<close> and \<open>err\<close> and \<^verbatim>\<open>Wait\<close>
  returned \<open>st\<close> (an error for a non-zero exit).
\<close>

datatype proc_outcome = NotRun error | Ran string string "error option"

record world =
  group :: string
  execargs :: "string list"
  secretsFile :: path
  files :: files
  umask :: nat
  environ :: "string \<rightharpoonup> string"
  stdout :: string
  stderr :: string
  entropy :: string
  faults :: "nat \<Rightarrow> syscall \<Rightarrow> fault"
  programs :: "string \<Rightarrow> string list \<Rightarrow> (string \<rightharpoonup> string) \<Rightarrow> files \<Rightarrow> proc_outcome \<times> files"
  calls :: "(syscall \<times> error option) list"

text \<open>
  \<open>faults\<close> says, for the number of calls made so far and the call about to be made,
  whether it fails; \<open>programs\<close> says what an external program does to the files and how
  it ends, given its arguments, the environment and the files; \<open>entropy\<close> holds the bytes
  the random source will deliver; \<open>calls\<close> is the log of the calls made, with their
  results.
\<close>

definition faultAt :: "world \<Rightarrow> syscall \<Rightarrow> fault" where
  "faultAt w c = faults w (length (calls w)) c"

definition logged :: "syscall \<Rightarrow> error option \<Rightarrow> world \<Rightarrow> world" where
  "logged c r w = w\<lparr>calls := calls w @ [(c, r)]\<rparr>"

text \<open>Go's \<^verbatim>\<open>*PathError\<close> and \<^verbatim>\<open>*LinkError\<close> for a path that does not exist.\<close>

definition notExist :: "string \<Rightarrow> string \<Rightarrow> error" where
  "notExist op p = Err (op @ '' '' @ p @ '': no such file or directory'')"

text \<open>\<^verbatim>\<open>const mode = 0600\<close> (octal).\<close>

definition mode :: nat where
  "mode = 6 * 64"

text \<open>The permission bits of a file the call creates: those asked for, less the umask.\<close>

definition createPerm :: "nat \<Rightarrow> world \<Rightarrow> nat" where
  "createPerm pm w = pm - (pm AND umask w)"

definition permAt :: "path \<Rightarrow> nat \<Rightarrow> world \<Rightarrow> nat" where
  "permAt p pm w = (case files w p of None \<Rightarrow> createPerm pm w | Some f \<Rightarrow> perm f)"

definition os_Lstat :: "path \<Rightarrow> world \<Rightarrow> error option \<times> world" where
  "os_Lstat p w =
     (let r = (case faultError (faultAt w (SysLstat p)) of
                 Some e \<Rightarrow> Some e
               | None \<Rightarrow> if files w p = None then Some (notExist ''lstat'' p) else None)
      in (r, logged (SysLstat p) r w))"

text \<open>
  \<^verbatim>\<open>os.Create(name)\<close> opens with \<^verbatim>\<open>O_RDWR|O_CREATE|O_TRUNC\<close> and mode 0666: an
  existing file is truncated and keeps its mode. The handle it returns is modelled by the
  path (\<^verbatim>\<open>f.Name()\<close>).
\<close>

definition os_Create :: "path \<Rightarrow> world \<Rightarrow> error option \<times> world" where
  "os_Create p w =
     (case faultError (faultAt w (SysCreate p)) of
        Some e \<Rightarrow> (Some e, logged (SysCreate p) (Some e) w)
      | None \<Rightarrow>
          (None, logged (SysCreate p) None
             (w\<lparr>files := (files w)(p \<mapsto> \<lparr>content = [], perm = permAt p (6 * 64 + 6 * 8 + 6) w\<rparr>)\<rparr>)))"

definition file_Chmod :: "path \<Rightarrow> nat \<Rightarrow> world \<Rightarrow> error option \<times> world" where
  "file_Chmod p pm w =
     (case faultError (faultAt w (SysChmod p pm)) of
        Some e \<Rightarrow> (Some e, logged (SysChmod p pm) (Some e) w)
      | None \<Rightarrow>
          (None, logged (SysChmod p pm) None
             (case files w p of
                None \<Rightarrow> w
              | Some f \<Rightarrow> w\<lparr>files := (files w)(p \<mapsto> f\<lparr>perm := pm\<rparr>)\<rparr>)))"

text \<open>
  \<^verbatim>\<open>f.WriteString(s)\<close> writes at the offset of the handle, which is the end of the
  file for the one write the program makes, right after \<^verbatim>\<open>os.Create\<close>.
\<close>

definition appendTo :: "path \<Rightarrow> string \<Rightarrow> world \<Rightarrow> world" where
  "appendTo p s w =
     (case files w p of
        None \<Rightarrow> w
      | Some f \<Rightarrow> w\<lparr>files := (files w)(p \<mapsto> f\<lparr>content := content f @ s\<rparr>)\<rparr>)"

definition file_WriteString :: "path \<Rightarrow> string \<Rightarrow> world \<Rightarrow> error option \<times> world" where
  "file_WriteString p s w =
     (case faultAt w (SysWriteString p s) of
        NoFault \<Rightarrow> (None, logged (SysWriteString p s) None (appendTo p s w))
      | Fault e \<Rightarrow> (Some e, logged (SysWriteString p s) (Some e) w)
      | ShortWrite k e \<Rightarrow> (Some e, logged (SysWriteString p s) (Some e) (appendTo p (take k s) w)))"

text \<open>\<^verbatim>\<open>f.Close()\<close>: the program ignores its result, and no file changes.\<close>

definition file_Close :: "path \<Rightarrow> world \<Rightarrow> world" where
  "file_Close p w = logged (SysClose p) (faultError (faultAt w (SysClose p))) w"

definition os_Remove :: "path \<Rightarrow> world \<Rightarrow> error option \<times> world" where
  "os_Remove p w =
     (case faultError (faultAt w (SysRemove p)) of
        Some e \<Rightarrow> (Some e, logged (SysRemove p) (Some e) w)
      | None \<Rightarrow>
          if files w p = None
          then (Some (notExist ''remove'' p), logged (SysRemove p) (Some (notExist ''remove'' p)) w)
          else (None, logged (SysRemove p) None (w\<lparr>files := (files w)(p := None)\<rparr>)))"

text \<open>
  \<^verbatim>\<open>os.Rename(oldpath, newpath)\<close>: atomic; it replaces an existing \<open>newpath\<close>. A
  rename that fails changes nothing.
\<close>

definition os_Rename :: "path \<Rightarrow> path \<Rightarrow> world \<Rightarrow> error option \<times> world" where
  "os_Rename oldpath newpath w =
     (case faultError (faultAt w (SysRename oldpath newpath)) of
        Some e \<Rightarrow> (Some e, logged (SysRename oldpath newpath) (Some e) w)
      | None \<Rightarrow>
          (case files w oldpath of
             None \<Rightarrow>
               (Some (notExist ''rename'' (oldpath @ '' '' @ newpath)),
                logged (SysRename oldpath newpath)
                  (Some (notExist ''rename'' (oldpath @ '' '' @ newpath))) w)
           | Some f \<Rightarrow>
               (None, logged (SysRename oldpath newpath) None
                  (if oldpath = newpath then w
                   else w\<lparr>files := (files w)(newpath \<mapsto> f, oldpath := None)\<rparr>))))"

definition ioutil_ReadFile :: "path \<Rightarrow> world \<Rightarrow> (error + string) \<times> world" where
  "ioutil_ReadFile p w =
     (case faultError (faultAt w (SysReadFile p)) of
        Some e \<Rightarrow> (Inl e, logged (SysReadFile p) (Some e) w)
      | None \<Rightarrow>
          (case files w p of
             None \<Rightarrow> (Inl (notExist ''open'' p), logged (SysReadFile p) (Some (notExist ''open'' p)) w)
           | Some f \<Rightarrow> (Inr (content f), logged (SysReadFile p) None w)))"

text \<open>
  \<^verbatim>\<open>ioutil.WriteFile(name, data, perm)\<close> opens with
  \<^verbatim>\<open>O_WRONLY|O_CREATE|O_TRUNC\<close>, writes and closes. When the open fails nothing has
  changed; when the write or the close fails the file has been truncated and holds the
  bytes written until then.
\<close>

definition ioutil_WriteFile :: "path \<Rightarrow> string \<Rightarrow> nat \<Rightarrow> world \<Rightarrow> error option \<times> world" where
  "ioutil_WriteFile p d pm w =
     (case faultAt w (SysWriteFile p d pm) of
        NoFault \<Rightarrow>
          (None, logged (SysWriteFile p d pm) None
             (w\<lparr>files := (files w)(p \<mapsto> \<lparr>content = d, perm = permAt p pm w\<rparr>)\<rparr>))
      | Fault e \<Rightarrow> (Some e, logged (SysWriteFile p d pm) (Some e) w)
      | ShortWrite k e \<Rightarrow>
          (Some e, logged (SysWriteFile p d pm) (Some e)
             (w\<lparr>files := (files w)(p \<mapsto> \<lparr>content = take k d, perm = permAt p pm w\<rparr>)\<rparr>)))"

text \<open>
  \<^verbatim>\<open>rand.Read(buf)\<close> fills the whole buffer or fails; the bytes on a failure are
  of no use to the program.
\<close>

definition rand_Read :: "nat \<Rightarrow> world \<Rightarrow> (string \<times> error option) \<times> world" where
  "rand_Read n w =
     (case faultError (faultAt w (SysRandRead n)) of
        Some e \<Rightarrow> ((replicate n (CHR 0x00), Some e), logged (SysRandRead n) (Some e) w)
      | None \<Rightarrow>
          if length (entropy w) < n
          then ((replicate n (CHR 0x00), Some (Err ''unexpected EOF'')),
                logged (SysRandRead n) (Some (Err ''unexpected EOF'')) w)
          else ((take n (entropy w), None),
                logged (SysRandRead n) None (w\<lparr>entropy := drop n (entropy w)\<rparr>)))"

text \<open>\<^verbatim>\<open>os.Getenv\<close>: the value, or the empty string when the variable is not set.\<close>

definition os_Getenv :: "string \<Rightarrow> world \<Rightarrow> string" where
  "os_Getenv k w = (case environ w k of None \<Rightarrow> [] | Some v \<Rightarrow> v)"

text \<open>
  \<^verbatim>\<open>os.Setenv(key, value)\<close> fails, and sets nothing, for an empty key, a key with
  \<^verbatim>\<open>=\<close> or a NUL byte in it, and a value with a NUL byte in it.
\<close>

definition setenvOK :: "string \<Rightarrow> string \<Rightarrow> bool" where
  "setenvOK k v = (k \<noteq> [] \<and> CHR ''='' \<notin> set k \<and> CHR 0x00 \<notin> set k \<and> CHR 0x00 \<notin> set v)"

definition os_Setenv :: "string \<Rightarrow> string \<Rightarrow> world \<Rightarrow> error option \<times> world" where
  "os_Setenv k v w =
     (if setenvOK k v then (None, w\<lparr>environ := (environ w)(k \<mapsto> v)\<rparr>)
      else (Some (Err (''setenv: invalid argument'')), w))"

text \<open>\<^verbatim>\<open>os.TempDir()\<close> on Unix.\<close>

definition os_TempDir :: "world \<Rightarrow> string" where
  "os_TempDir w = (let dir = os_Getenv ''TMPDIR'' w in if dir = [] then ''/tmp'' else dir)"

text \<open>\<^verbatim>\<open>strings.Join(elems, sep)\<close>.\<close>

fun Join :: "string list \<Rightarrow> string \<Rightarrow> string" where
  "Join [] sep = []"
| "Join [a] sep = a"
| "Join (a # b # rest) sep = a @ sep @ Join (b # rest) sep"

text \<open>
  \<^verbatim>\<open>filepath.Clean\<close>, on the elements between the slashes: empty elements and
  \<^verbatim>\<open>.\<close> are dropped; \<^verbatim>\<open>..\<close> takes the element before it away, stays where there is
  none (a relative path), and is dropped at the root.
\<close>

definition cleanStep :: "bool \<Rightarrow> string list \<Rightarrow> string \<Rightarrow> string list" where
  "cleanStep rooted st e =
     (if e = [] \<or> e = ''.'' then st
      else if e = ''..'' then
        (if st \<noteq> [] \<and> last st \<noteq> ''..'' then butlast st
         else if rooted then st
         else st @ [''..''])
      else st @ [e])"

definition Clean :: "string \<Rightarrow> string" where
  "Clean p =
     (if p = [] then ''.''
      else let rooted = (hd p = CHR ''/'');
               st = foldl (cleanStep rooted) [] (Split p ''/'')
           in if rooted then CHR ''/'' # Join st ''/''
              else if st = [] then ''.''
              else Join st ''/'')"

text \<open>\<^verbatim>\<open>filepath.Join\<close>: the elements from the first non-empty one on, cleaned.\<close>

definition filepath_Join :: "string list \<Rightarrow> string" where
  "filepath_Join elem =
     (case dropWhile (\<lambda>e. e = []) elem of
        [] \<Rightarrow> []
      | e # es \<Rightarrow> Clean (Join (e # es) ''/''))"

text \<open>\<^verbatim>\<open>hex.EncodeToString\<close>: two lower-case digits for every byte.\<close>

definition hextable :: string where
  "hextable = ''0123456789abcdef''"

definition hex_EncodeToString :: "string \<Rightarrow> string" where
  "hex_EncodeToString src =
     concat (map (\<lambda>b. [hextable ! ((of_char b :: nat) div 16),
                        hextable ! ((of_char b :: nat) mod 16)]) src)"

text \<open>
  \<^verbatim>\<open>fmt.Println\<close> and \<^verbatim>\<open>fmt.Fprintln(os.Stderr, ...)\<close>: the operands (strings, and
  errors as their text) with a space between them, and a newline.
\<close>

definition Sprintln :: "string list \<Rightarrow> string" where
  "Sprintln a = Join a '' '' @ [LF]"

definition Println :: "string list \<Rightarrow> world \<Rightarrow> world" where
  "Println a w = w\<lparr>stdout := stdout w @ Sprintln a\<rparr>"

definition Fprintln_Stderr :: "string list \<Rightarrow> world \<Rightarrow> world" where
  "Fprintln_Stderr a w = w\<lparr>stderr := stderr w @ Sprintln a\<rparr>"

section \<open>The program\<close>

text \<open>
  A function of the program that can call \<^verbatim>\<open>os.Exit\<close> returns \<open>Exited n\<close> when it
  did, and \<open>Returned x\<close> when it came back with \<open>x\<close>.
\<close>

datatype 'a outcome = Exited nat | Returned 'a

text \<open>
  \<^verbatim>\<open>init\<close>, for the group and the arguments the flags give:
  \<^verbatim>\<open>secretsFile = fmt.Sprintf("%s/.secrets/%s.gpg", os.Getenv("HOME"), group)\<close>.
\<close>

definition init :: "string \<Rightarrow> string list \<Rightarrow> world \<Rightarrow> world" where
  "init g args w =
     w\<lparr>group := g, execargs := args,
       secretsFile := os_Getenv ''HOME'' w @ ''/.secrets/'' @ g @ ''.gpg''\<rparr>"

text \<open>
  \<^verbatim>\<open>system\<close>: the child reads the files and the environment of this process. With
  \<open>pipe\<close> its output goes to the streams of this process and the strings returned are
  empty; without, its output is captured and returned.
\<close>

definition system :: "string \<Rightarrow> bool \<Rightarrow> string list \<Rightarrow> world \<Rightarrow> (string \<times> string \<times> error option) \<times> world" where
  "system command pipe args w =
     (case programs w command args (environ w) (files w) of
        (NotRun e, fs) \<Rightarrow>
          (([], [], Some e), logged (SysExec command args) (Some e) (w\<lparr>files := fs\<rparr>))
      | (Ran out err st, fs) \<Rightarrow>
          if pipe
          then (([], [], st),
                logged (SysExec command args) st
                  (w\<lparr>files := fs, stdout := stdout w @ out, stderr := stderr w @ err\<rparr>))
          else ((out, err, st), logged (SysExec command args) st (w\<lparr>files := fs\<rparr>)))"

definition gpg :: "string list \<Rightarrow> world \<Rightarrow> (string \<times> string \<times> error option) \<times> world" where
  "gpg args w = system ''gpg'' False ([''--quiet'', ''--no-verbose''] @ args) w"

definition fileExists :: "path \<Rightarrow> world \<Rightarrow> bool \<times> world" where
  "fileExists p w =
     (case os_Lstat p w of
        (Some e, w1) \<Rightarrow> (False, w1)
      | (None, w1) \<Rightarrow> (True, w1))"

definition ensureGroup :: "world \<Rightarrow> unit outcome \<times> world" where
  "ensureGroup w =
     (if group w = [] then (Exited 1, Println [''Group name is required''] w)
      else (Returned (), w))"

definition ensureSecrets :: "world \<Rightarrow> unit outcome \<times> world" where
  "ensureSecrets w =
     (case ensureGroup w of
        (Exited n, w1) \<Rightarrow> (Exited n, w1)
      | (Returned u, w1) \<Rightarrow>
          (case fileExists (secretsFile w1) w1 of
             (False, w2) \<Rightarrow>
               (Exited 1,
                Println [''Secrets file '', group w2,
                         ''does not exist. Create one with the edit command''] w2)
           | (True, w2) \<Rightarrow> (Returned (), w2)))"

definition decryptFile :: "world \<Rightarrow> string outcome \<times> world" where
  "decryptFile w =
     (case fileExists (secretsFile w) w of
        (False, w1) \<Rightarrow> (Returned [], w1)
      | (True, w1) \<Rightarrow>
          (case gpg [''-d'', secretsFile w1] w1 of
             ((out, err, Some e), w2) \<Rightarrow>
               (Exited 1, Fprintln_Stderr [errorText e, [LF], err] w2)
           | ((out, err, None), w2) \<Rightarrow> (Returned (TrimSpace out), w2)))"

definition decrypt :: "world \<Rightarrow> string outcome \<times> world" where
  "decrypt w =
     (case ensureSecrets w of
        (Exited n, w1) \<Rightarrow> (Exited n, w1)
      | (Returned u, w1) \<Rightarrow> decryptFile w1)"

definition randChars :: "world \<Rightarrow> string outcome \<times> world" where
  "randChars w =
     (case rand_Read 4 w of
        ((buf, Some e), w1) \<Rightarrow> (Exited 1, Fprintln_Stderr [''Unable to create temporary file''] w1)
      | ((buf, None), w1) \<Rightarrow> (Returned (hex_EncodeToString buf), w1))"

text \<open>
  \<^verbatim>\<open>writeTmpFile\<close> returns the handle (here the path of the file) or an error, unless
  \<^verbatim>\<open>randChars\<close> has ended the process.
\<close>

definition writeTmpFile :: "string \<Rightarrow> world \<Rightarrow> (error + path) outcome \<times> world" where
  "writeTmpFile contents w =
     (case randChars w of
        (Exited n, w1) \<Rightarrow> (Exited n, w1)
      | (Returned r, w1) \<Rightarrow>
          (let tmpFile = filepath_Join [os_TempDir w1, ''unseal.'' @ r]
           in case os_Create tmpFile w1 of
                (Some e, w2) \<Rightarrow> (Returned (Inl e), w2)
              | (None, w2) \<Rightarrow>
                  (case file_Chmod tmpFile mode w2 of
                     (Some e, w3) \<Rightarrow> (Returned (Inl e), file_Close tmpFile w3)
                   | (None, w3) \<Rightarrow>
                       (case file_WriteString tmpFile contents w3 of
                          (Some e, w4) \<Rightarrow> (Returned (Inl e), file_Close tmpFile w4)
                        | (None, w4) \<Rightarrow> (Returned (Inr tmpFile), w4)))))"

definition editFile :: "path \<Rightarrow> world \<Rightarrow> error option \<times> world" where
  "editFile f w =
     (let editor = os_Getenv ''EDITOR'' w;
          editor = (if editor = [] then ''vi'' else editor)
      in case system editor True [f] w of
           ((out, err, r), w1) \<Rightarrow> (r, w1))"

definition copyFile :: "path \<Rightarrow> path \<Rightarrow> world \<Rightarrow> error option \<times> world" where
  "copyFile oldpath newpath w =
     (case os_Rename oldpath newpath w of
        (None, w1) \<Rightarrow> (None, w1)
      | (Some err, w1) \<Rightarrow>
          (case ioutil_ReadFile oldpath w1 of
             (Inl err2, w2) \<Rightarrow> (Some err2, w2)
           | (Inr byteArr, w2) \<Rightarrow>
               (case ioutil_WriteFile newpath byteArr mode w2 of
                  (None, w3) \<Rightarrow> (None, snd (os_Remove oldpath w3))
                | (Some err2, w3) \<Rightarrow> (Some err2, snd (os_Remove newpath w3)))))"

text \<open>
  \<^verbatim>\<open>insertEnvironment\<close> ranges over the map in no fixed order; every key is set once,
  so the order makes no difference: a variable is set to the value of its key where
  \<^verbatim>\<open>os.Setenv\<close> accepts the pair (its error is not looked at), and is left alone
  otherwise.
\<close>

definition insertEnvironment :: "vars \<Rightarrow> world \<Rightarrow> world" where
  "insertEnvironment vars w =
     w\<lparr>environ := (\<lambda>k. case vars k of
                          None \<Rightarrow> environ w k
                        | Some v \<Rightarrow> if setenvOK k v then Some v else environ w k)\<rparr>"

text \<open>The closure \<^verbatim>\<open>cleanup\<close> of \<^verbatim>\<open>edit\<close>, for the temporary file \<open>f\<close>.\<close>

definition cleanup :: "path \<Rightarrow> world \<Rightarrow> world" where
  "cleanup f w =
     (case os_Remove f (file_Close f w) of
        (Some err, w1) \<Rightarrow>
          Fprintln_Stderr
            [''Error cleaning up temp file. Unencrypted secrets may have leaked '', errorText err] w1
      | (None, w1) \<Rightarrow> w1)"

text \<open>
  \<^verbatim>\<open>edit\<close> up to the cleanup that follows the encryption: it ends the process, or
  comes to the install step with the path of the plaintext file and that of the
  ciphertext \<^verbatim>\<open>tmpEnc\<close>.
\<close>

definition editEncrypt :: "world \<Rightarrow> (path \<times> path) outcome \<times> world" where
  "editEncrypt w =
     (case ensureGroup w of
        (Exited n, w1) \<Rightarrow> (Exited n, w1)
      | (Returned u, w1) \<Rightarrow>
          (case fileExists (secretsFile w1) w1 of
             (ex, w2) \<Rightarrow>
               (case (if ex then decryptFile w2 else (Returned [], w2)) of
                  (Exited n, w3) \<Rightarrow> (Exited n, w3)
                | (Returned contents, w3) \<Rightarrow>
                    (case writeTmpFile contents w3 of
                       (Exited n, w4) \<Rightarrow> (Exited n, w4)
                     | (Returned (Inl err), w4) \<Rightarrow>
                         (Exited 1, Println [''Error opening temporary file''] w4)
                     | (Returned (Inr f), w4) \<Rightarrow>
                         (let tmpEnc = f @ ''.gpg''
                          in case editFile f w4 of
                               (Some err, w5) \<Rightarrow>
                                 (Exited 1,
                                  Fprintln_Stderr [''Error editing secrets file: '', errorText err] w5)
                             | (None, w5) \<Rightarrow>
                                 (case gpg [''--armor'', ''--cipher-algo'', ''AES256'', ''-c'',
                                            ''-o'', tmpEnc, f] w5 of
                                    ((out, err, r), w6) \<Rightarrow>
                                      (let w7 = cleanup f w6
                                       in case r of
                                            Some e \<Rightarrow>
                                              (Exited 1,
                                               Fprintln_Stderr
                                                 [''Error encrypting temporary file: '',
                                                  errorText e, [LF], err] w7)
                                          | None \<Rightarrow> (Returned (f, tmpEnc), w7))))))))"

text \<open>\<^verbatim>\<open>edit\<close>: the steps above, then the install of the ciphertext as the store.\<close>

definition edit :: "world \<Rightarrow> unit outcome \<times> world" where
  "edit w =
     (case editEncrypt w of
        (Exited n, w1) \<Rightarrow> (Exited n, w1)
      | (Returned (f, tmpEnc), w1) \<Rightarrow>
          (case copyFile tmpEnc (secretsFile w1) w1 of
             (Some err, w2) \<Rightarrow>
               (Exited 1,
                cleanup f
                  (Fprintln_Stderr
                     [''Unable to move encrypted temp file to secrets dir: '', errorText err] w2))
           | (None, w2) \<Rightarrow> (Returned (), w2)))"

text \<open>
  \<^verbatim>\<open>wrap\<close>. The reads \<^verbatim>\<open>execargs[0]\<close> and \<^verbatim>\<open>execargs[1:len(execargs)]\<close> come
  after the length test, so they are in range.
\<close>

definition wrap :: "world \<Rightarrow> unit outcome \<times> world" where
  "wrap w =
     (if length (execargs w) < 1
      then (Exited 1, Fprintln_Stderr [''Wrap requires at least an external program to run''] w)
      else case ensureSecrets w of
             (Exited n, w1) \<Rightarrow> (Exited n, w1)
           | (Returned u, w1) \<Rightarrow>
               (case decrypt w1 of
                  (Exited n, w2) \<Rightarrow> (Exited n, w2)
                | (Returned txt, w2) \<Rightarrow>
                    (let w3 = insertEnvironment (parseEnvironment txt) w2
                     in case system (execargs w3 ! 0) True (drop 1 (execargs w3)) w3 of
                          ((out, err, Some e), w4) \<Rightarrow>
                            (Returned (),
                             Fprintln_Stderr [''Error executing external command: '', errorText e] w4)
                        | ((out, err, None), w4) \<Rightarrow> (Returned (), w4))))"

section \<open>Scenarios\<close>

text \<open>
  Concrete machines on which the theorems below are instantiated. \<open>tools\<close> stands for
  the programs installed: a \<^verbatim>\<open>gpg\<close> whose ciphertext is the plaintext behind a
  fixed header, an editor \<^verbatim>\<open>vi\<close> that writes one variable into the file it is given,
  \<^verbatim>\<open>false\<close>, which exits with status 1, and \<^verbatim>\<open>printenv\<close>, which prints the
  value of a variable of its environment.
\<close>

definition seal :: "string \<Rightarrow> string" where
  "seal s = ''sealed:'' @ s"

definition unseal :: "string \<Rightarrow> string" where
  "unseal s = drop 7 s"

definition tools :: "string \<Rightarrow> string list \<Rightarrow> (string \<rightharpoonup> string) \<Rightarrow> files \<Rightarrow> proc_outcome \<times> files" where
  "tools command args env fs =
     (if command = ''gpg'' \<and> length args = 4 then
        (case fs (args ! 3) of
           None \<Rightarrow> (Ran [] ''gpg: no such file'' (Some (Err ''exit status 2'')), fs)
         | Some f \<Rightarrow> (Ran (unseal (content f)) [] None, fs))
      else if command = ''gpg'' \<and> length args = 9 then
        (case fs (args ! 8) of
           None \<Rightarrow> (Ran [] ''gpg: no such file'' (Some (Err ''exit status 2'')), fs)
         | Some f \<Rightarrow>
             (Ran [] [] None, fs(args ! 7 \<mapsto> \<lparr>content = seal (content f), perm = 420\<rparr>)))
      else if command = ''vi'' \<and> length args = 1 then
        (Ran [] [] None, fs(args ! 0 \<mapsto> \<lparr>content = ''TOKEN=abc123'' @ [LF], perm = 384\<rparr>))
      else if command = ''false'' then (Ran [] [] (Some (Err ''exit status 1'')), fs)
      else if command = ''printenv'' \<and> length args = 1 then
        (case env (args ! 0) of
           None \<Rightarrow> (Ran [] [] (Some (Err ''exit status 1'')), fs)
         | Some v \<Rightarrow> (Ran (v @ [LF]) [] None, fs))
      else (NotRun (Err ''executable file not found in $PATH''), fs))"

text \<open>Group \<^verbatim>\<open>ci\<close> with no store yet; umask 022; no call fails.\<close>

definition noStore :: world where
  "noStore =
     \<lparr>group = ''ci'', execargs = [], secretsFile = ''/home/u/.secrets/ci.gpg'',
      files = Map.empty, umask = 18, environ = [''HOME'' \<mapsto> ''/home/u''],
      stdout = [], stderr = [], entropy = [CHR 0x00, CHR 0x01, CHR 0xAB, CHR 0xFF],
      faults = (\<lambda>n c. NoFault), programs = tools, calls = []\<rparr>"

text \<open>The same with a store that holds \<^verbatim>\<open>A=1\<close> and \<^verbatim>\<open>B=2\<close>.\<close>

definition withStore :: world where
  "withStore =
     noStore\<lparr>files := [''/home/u/.secrets/ci.gpg'' \<mapsto>
                          \<lparr>content = seal (''A=1'' @ [LF] @ ''B=2'' @ [LF]), perm = 384\<rparr>]\<rparr>"

text \<open>\<^verbatim>\<open>EDITOR=false\<close>: the editor exits with status 1.\<close>

definition editorFails :: world where
  "editorFails = withStore\<lparr>environ := [''HOME'' \<mapsto> ''/home/u'', ''EDITOR'' \<mapsto> ''false'']\<rparr>"

text \<open>\<^verbatim>\<open>wrap\<close> of the command \<^verbatim>\<open>false\<close>.\<close>

definition wrapFalse :: world where
  "wrapFalse = withStore\<lparr>execargs := [''false'']\<rparr>"

text \<open>\<^verbatim>\<open>wrap\<close> of \<^verbatim>\<open>printenv A\<close>.\<close>

definition wrapPrintenv :: world where
  "wrapPrintenv = withStore\<lparr>execargs := [''printenv'', ''A'']\<rparr>"

text \<open>A \<^verbatim>\<open>gpg\<close> that decrypts but fails to encrypt.\<close>

definition encryptFails :: world where
  "encryptFails =
     withStore\<lparr>programs :=
       (\<lambda>command args env fs.
          if command = ''gpg'' \<and> length args = 9
          then (Ran [] ''gpg: encryption failed'' (Some (Err ''exit status 2'')), fs)
          else tools command args env fs)\<rparr>"

text \<open>
  Faults of an install across devices onto a full disk: every rename fails, and every
  \<^verbatim>\<open>ioutil.WriteFile\<close> fails after three bytes.
\<close>

definition crossDevice :: "nat \<Rightarrow> syscall \<Rightarrow> fault" where
  "crossDevice n c =
     (case c of
        SysRename a b \<Rightarrow> Fault (Err ''invalid cross-device link'')
      | SysWriteFile p d m \<Rightarrow> ShortWrite 3 (Err ''no space left on device'')
      | _ \<Rightarrow> NoFault)"


text \<open>A new ciphertext waits in the temporary directory to be installed over the store.\<close>

definition staged :: world where
  "staged =
     withStore\<lparr>files := (files withStore)
                  (''/tmp/unseal.0001abff.gpg'' \<mapsto> \<lparr>content = seal ''A=1\<newline>B=3'', perm = 420\<rparr>),
                faults := crossDevice\<rparr>"



text \<open>
  Another run of the program has its plaintext file under the name that the random bytes
  of this run give.
\<close>

definition collision :: world where
  "collision =
     noStore\<lparr>files := [''/tmp/unseal.0001abff'' \<mapsto> \<lparr>content = ''OTHER=secret'', perm = 384\<rparr>]\<rparr>"

section \<open>Properties of the codec\<close>

lemma Index_char_None: "c \<notin> set s \<Longrightarrow> Index s [c] = None"
  by (induction s) (auto simp: HasPrefix_def)

lemma Index_char_first: "c \<notin> set k \<Longrightarrow> Index (k @ c # x) [c] = Some (length k)"
  by (induction k) (auto simp: HasPrefix_def)

lemma splitLoop_no_sep: "c \<notin> set s \<Longrightarrow> splitLoop n s [c] = [s]"
  by (cases n) (simp_all add: Index_char_None)

lemma SplitN_2_no_sep: "c \<notin> set v \<Longrightarrow> SplitN v [c] 2 = [v]"
  by (simp add: SplitN_def splitLoop_no_sep Index_char_None)

lemma SplitN_2_first: "c \<notin> set k \<Longrightarrow> SplitN (k @ c # x) [c] 2 = [k, x]"
  by (simp add: SplitN_def Index_char_first numeral_2_eq_2)

lemma TrimSpace_Nil: "TrimSpace [] = []"
  by code_simp

lemma parseLine_no_equals: "CHR ''='' \<notin> set v \<Longrightarrow> parseLine vars v = vars"
  by (simp add: parseLine_def SplitN_2_no_sep)

lemma parseLine_first_equals:
  "CHR ''='' \<notin> set k \<Longrightarrow> parseLine vars (k @ CHR ''='' # x) = vars(k \<mapsto> x)"
  by (simp add: parseLine_def SplitN_2_first TrimSpace_Nil)

lemma parseLine_other_key:
  assumes "CHR ''='' \<notin> set k" and "\<not> HasPrefix l (k @ ''='')"
  shows "parseLine vars l k = vars k"
proof (cases "CHR ''='' \<in> set l")
  case False
  then show ?thesis
    by (simp add: parseLine_no_equals)
next
  case True
  then obtain a b where l: "l = a @ CHR ''='' # b" and a: "CHR ''='' \<notin> set a"
    by (auto dest: split_list_first)
  from assms(2) l have "a \<noteq> k"
    by (auto simp: HasPrefix_def)
  with a l show ?thesis
    by (simp add: parseLine_first_equals)
qed

lemma foldl_parseLine_other_key:
  assumes "CHR ''='' \<notin> set k" and "list_all (\<lambda>l. \<not> HasPrefix l (k @ ''='')) post"
  shows "foldl parseLine vars post k = vars k"
  using assms(2)
proof (induction post arbitrary: vars)
  case Nil
  then show ?case by simp
next
  case (Cons l post)
  then show ?case
    using assms(1) by (simp add: parseLine_other_key)
qed

lemma parseLine_keys:
  assumes "\<forall>k\<in>dom vars. CHR ''='' \<notin> set k"
  shows "\<forall>k\<in>dom (parseLine vars l). CHR ''='' \<notin> set k"
proof (cases "CHR ''='' \<in> set l")
  case False
  with assms show ?thesis
    by (simp add: parseLine_no_equals)
next
  case True
  then obtain a b where l: "l = a @ CHR ''='' # b" and a: "CHR ''='' \<notin> set a"
    by (auto dest: split_list_first)
  with assms show ?thesis
    by (auto simp: parseLine_first_equals)
qed

lemma foldl_parseLine_keys:
  "\<forall>k\<in>dom vars. CHR ''='' \<notin> set k \<Longrightarrow>
   \<forall>k\<in>dom (foldl parseLine vars ls). CHR ''='' \<notin> set k"
proof (induction ls arbitrary: vars)
  case Nil
  then show ?case by simp
next
  case (Cons l ls)
  from Cons.prems have "\<forall>k\<in>dom (parseLine vars l). CHR ''='' \<notin> set k"
    by (rule parseLine_keys)
  then show ?case
    using Cons.IH by simp
qed

text \<open>
  Claim C4 (scenario C of the specification). The raw text \<^verbatim>\<open>A=1\r\n\r\nB=2\r\n\<close>
  is cut into the lines \<^verbatim>\<open>A=1\<close>, the empty line, \<^verbatim>\<open>B=2\<close> and a last empty line
  (the line ends normalised), and \<^verbatim>\<open>parseEnvironment\<close> returns exactly the map that
  binds \<^verbatim>\<open>A\<close> to \<^verbatim>\<open>1\<close> and \<^verbatim>\<open>B\<close> to \<^verbatim>\<open>2\<close>.
\<close>

theorem parse_crlf_scenario:
  "envLines (''A=1'' @ [CR, LF, CR, LF] @ ''B=2'' @ [CR, LF]) = [''A=1'', [], ''B=2'', []] \<and>
   parseEnvironment (''A=1'' @ [CR, LF, CR, LF] @ ''B=2'' @ [CR, LF]) =
     [''A'' \<mapsto> ''1'', ''B'' \<mapsto> ''2'']"
proof -
  have cut: "envLines (''A=1'' @ [CR, LF, CR, LF] @ ''B=2'' @ [CR, LF]) = [''A=1'', [], ''B=2'', []]"
    by code_simp
  have a: "parseLine vars ''A=1'' = vars(''A'' \<mapsto> ''1'')" for vars
    using parseLine_first_equals [of "''A''" vars "''1''"] by simp
  have b: "parseLine vars ''B=2'' = vars(''B'' \<mapsto> ''2'')" for vars
    using parseLine_first_equals [of "''B''" vars "''2''"] by simp
  have blank: "parseLine vars [] = vars" for vars
    by (simp add: parseLine_no_equals)
  show ?thesis
    unfolding parseEnvironment_def cut by (simp add: a b blank)
qed

text \<open>
  Claim C5. For every line the loop of \<^verbatim>\<open>parseEnvironment\<close> is given: a line with
  no \<^verbatim>\<open>=\<close> in it leaves the map as it is (no entry, no error); a line \<open>k=x\<close>, where
  \<open>k\<close> has no \<^verbatim>\<open>=\<close>, binds \<open>k\<close> to all of \<open>x\<close>, whatever bytes \<open>k\<close> and \<open>x\<close> are
  made of (further \<^verbatim>\<open>=\<close> and white space included: nothing is trimmed). For example
  \<^verbatim>\<open>X=a=b\<close> maps \<^verbatim>\<open>X\<close> to \<^verbatim>\<open>a=b\<close>, and \<^verbatim>\<open> K = v \<close> maps \<^verbatim>\<open> K \<close> with its
  spaces to \<^verbatim>\<open> v \<close> with its spaces.
\<close>

theorem parse_line_split_at_first_equals:
  "(CHR ''='' \<notin> set v \<longrightarrow> parseLine vars v = vars) \<and>
   (CHR ''='' \<notin> set k \<longrightarrow> parseLine vars (k @ CHR ''='' # x) = vars(k \<mapsto> x)) \<and>
   parseEnvironment ''X=a=b'' = [''X'' \<mapsto> ''a=b''] \<and>
   parseEnvironment '' K = v '' = ['' K '' \<mapsto> '' v '']"
proof -
  have l1: "envLines ''X=a=b'' = [''X=a=b'']" and l2: "envLines '' K = v '' = ['' K = v '']"
    by code_simp+
  have "parseEnvironment ''X=a=b'' = [''X'' \<mapsto> ''a=b'']"
    unfolding parseEnvironment_def l1
    using parseLine_first_equals [of "''X''" Map.empty "''a=b''"] by simp
  moreover have "parseEnvironment '' K = v '' = ['' K '' \<mapsto> '' v '']"
    unfolding parseEnvironment_def l2
    using parseLine_first_equals [of "'' K ''" Map.empty "'' v ''"] by simp
  ultimately show ?thesis
    by (simp add: parseLine_no_equals parseLine_first_equals)
qed

theorem parse_line_split_at_first_equals_witness:
  "CHR ''='' \<notin> set ''no equals sign'' \<and>
   parseLine [''A'' \<mapsto> ''1''] ''no equals sign'' = [''A'' \<mapsto> ''1''] \<and>
   CHR ''='' \<notin> set ''X'' \<and>
   parseLine [''A'' \<mapsto> ''1''] (''X'' @ CHR ''='' # ''a=b'') = [''A'' \<mapsto> ''1'', ''X'' \<mapsto> ''a=b'']"
  using parse_line_split_at_first_equals
    [of "''no equals sign''" "[''A'' \<mapsto> ''1'']" "''X''" "''a=b''"]
  by simp

text \<open>
  Claim C6. When the line \<open>k=x\<close> is among the lines of the raw text and no line after it
  starts with \<open>k=\<close>, the map returned binds \<open>k\<close> to \<open>x\<close>, whatever the lines before
  it bound \<open>k\<close> to: the last occurrence of a key wins. (A map binds a key at most once.)
\<close>

theorem parse_last_occurrence_wins:
  assumes "envLines raw = pre @ [k @ CHR ''='' # x] @ post"
    and "CHR ''='' \<notin> set k"
    and "list_all (\<lambda>l. \<not> HasPrefix l (k @ ''='')) post"
  shows "parseEnvironment raw k = Some x"
  using assms by (simp add: parseEnvironment_def foldl_parseLine_other_key parseLine_first_equals)

theorem parse_last_occurrence_wins_witness:
  "envLines ''A=1\<newline>A=2\<newline>B=9'' = [''A=1''] @ [''A'' @ CHR ''='' # ''2''] @ [''B=9''] \<and>
   CHR ''='' \<notin> set ''A'' \<and>
   list_all (\<lambda>l. \<not> HasPrefix l (''A'' @ ''='')) [''B=9''] \<and>
   parseEnvironment ''A=1\<newline>A=2\<newline>B=9'' ''A'' = Some ''2''"
proof -
  have 1: "envLines ''A=1\<newline>A=2\<newline>B=9'' = [''A=1''] @ [''A'' @ CHR ''='' # ''2''] @ [''B=9'']"
    by code_simp
  have 2: "CHR ''='' \<notin> set ''A''"
    by simp
  have 3: "list_all (\<lambda>l. \<not> HasPrefix l (''A'' @ ''='')) [''B=9'']"
    by (simp add: HasPrefix_def)
  from parse_last_occurrence_wins [OF 1 2 3] 1 2 3 show ?thesis
    by blast
qed

text \<open>
  Claim C10. No key of the map that \<^verbatim>\<open>parseEnvironment\<close> returns has a \<^verbatim>\<open>=\<close> in
  it; and a line that starts with \<^verbatim>\<open>=\<close> is not ignored: it binds the empty key to the
  rest of the line (\<^verbatim>\<open>=v\<close> gives the map from the empty string to \<^verbatim>\<open>v\<close>), so keys
  can be empty.
\<close>

theorem parse_keys_without_equals:
  "(\<forall>k\<in>dom (parseEnvironment raw). CHR ''='' \<notin> set k) \<and>
   parseLine vars (CHR ''='' # x) = vars([] \<mapsto> x) \<and>
   parseEnvironment ''=v'' = [[] \<mapsto> ''v'']"
proof -
  have "\<forall>k\<in>dom (parseEnvironment raw). CHR ''='' \<notin> set k"
    unfolding parseEnvironment_def by (rule foldl_parseLine_keys) simp
  moreover have "parseLine vars (CHR ''='' # x) = vars([] \<mapsto> x)"
    using parseLine_first_equals [of "[]" vars x] by simp
  moreover have "envLines ''=v'' = [''=v'']"
    by code_simp
  then have "parseEnvironment ''=v'' = [[] \<mapsto> ''v'']"
    unfolding parseEnvironment_def
    using parseLine_first_equals [of "[]" Map.empty "''v''"] by simp
  ultimately show ?thesis
    by blast
qed

theorem parse_keys_without_equals_witness:
  "''K'' \<in> dom (parseEnvironment ''K=a=b'') \<and> CHR ''='' \<notin> set ''K''"
proof -
  have "parseEnvironment ''K=a=b'' ''K'' = Some ''a=b''"
    by code_simp
  then have "''K'' \<in> dom (parseEnvironment ''K=a=b'')"
    by blast
  with parse_keys_without_equals [of "''K=a=b''"] show ?thesis
    by blast
qed

section \<open>Properties of the store and of the wrapper\<close>

lemmas call_defs = os_Lstat_def os_Create_def file_Chmod_def file_WriteString_def file_Close_def
  os_Remove_def os_Rename_def ioutil_ReadFile_def ioutil_WriteFile_def rand_Read_def
  faultAt_def logged_def appendTo_def

lemmas print_defs = Println_def Fprintln_Stderr_def Sprintln_def

text \<open>
  Claim C3. For a non-empty group whose store file does not exist, \<^verbatim>\<open>ensureSecrets\<close>
  ends the process with status 1 after printing that the secrets file of the group does
  not exist and that one is created with the edit command, while \<^verbatim>\<open>decryptFile\<close>
  returns the empty string, prints nothing and leaves every file as it is.
\<close>

theorem absent_store_required_or_empty:
  assumes "group w \<noteq> []" and "files w (secretsFile w) = None"
  shows "fst (ensureSecrets w) = Exited 1 \<and>
         stdout (snd (ensureSecrets w)) =
           stdout w @ ''Secrets file  '' @ group w @
             '' does not exist. Create one with the edit command'' @ [LF] \<and>
         fst (decryptFile w) = Returned [] \<and>
         stdout (snd (decryptFile w)) = stdout w \<and>
         stderr (snd (decryptFile w)) = stderr w \<and>
         files (snd (decryptFile w)) = files w"
  using assms
  by (simp add: ensureSecrets_def ensureGroup_def decryptFile_def fileExists_def call_defs
      print_defs Let_def split: option.splits)

theorem absent_store_required_or_empty_witness:
  "group noStore \<noteq> [] \<and> files noStore (secretsFile noStore) = None \<and>
   fst (ensureSecrets noStore) = Exited 1 \<and>
   stdout (snd (ensureSecrets noStore)) =
     ''Secrets file  ci does not exist. Create one with the edit command\<newline>'' \<and>
   fst (decryptFile noStore) = Returned []"
proof -
  have 1: "group noStore \<noteq> []" and 2: "files noStore (secretsFile noStore) = None"
    by (simp_all add: noStore_def)
  have 3: "stdout noStore = []" and 4: "group noStore = ''ci''"
    by (simp_all add: noStore_def)
  from absent_store_required_or_empty [OF 1 2] 1 2 show ?thesis
    by (simp add: 3 4 LF_def)
qed

lemma system_execargs [simp]: "execargs (snd (system c p a w)) = execargs w"
  by (simp add: system_def logged_def split: prod.splits proc_outcome.splits)

lemma fileExists_execargs [simp]: "execargs (snd (fileExists p w)) = execargs w"
  by (simp add: fileExists_def call_defs Let_def split: option.splits)

lemma ensureSecrets_execargs [simp]: "execargs (snd (ensureSecrets w)) = execargs w"
  by (simp add: ensureSecrets_def ensureGroup_def print_defs split_beta split: bool.splits)

lemma decryptFile_execargs [simp]: "execargs (snd (decryptFile w)) = execargs w"
  by (simp add: decryptFile_def gpg_def print_defs split_beta split: bool.splits option.splits)

lemma decrypt_execargs [simp]: "execargs (snd (decrypt w)) = execargs w"
  by (simp add: decrypt_def split_beta split: outcome.splits)

text \<open>
  Claim C7. With no argument, \<^verbatim>\<open>wrap\<close> ends the process with status 1 after writing
  to standard error that it requires an external program. With the arguments
  \<open>prog # args\<close>, once \<^verbatim>\<open>ensureSecrets\<close> and \<^verbatim>\<open>decrypt\<close> have returned and the
  variables are in the environment, \<^verbatim>\<open>wrap\<close> returns normally however the child ends:
  when \<^verbatim>\<open>system\<close> gives an error \<open>e\<close> (the child could not be started, or exited with
  a non-zero status) the only difference is one line on standard error that reports \<open>e\<close>.
\<close>

theorem wrap_missing_command_and_child_failure:
  "(execargs w = [] \<longrightarrow>
      fst (wrap w) = Exited 1 \<and>
      stderr (snd (wrap w)) =
        stderr w @ ''Wrap requires at least an external program to run'' @ [LF]) \<and>
   (execargs w = prog # args \<and> ensureSecrets w = (Returned (), w1) \<and>
    decrypt w1 = (Returned txt, w2) \<and>
    system prog True args (insertEnvironment (parseEnvironment txt) w2) = ((out, err, r), w3) \<longrightarrow>
      fst (wrap w) = Returned () \<and>
      snd (wrap w) =
        (case r of
           None \<Rightarrow> w3
         | Some e \<Rightarrow>
             w3\<lparr>stderr := stderr w3 @ ''Error executing external command:  '' @ errorText e @ [LF]\<rparr>))"
proof (intro conjI impI)
  assume "execargs w = []"
  then show "fst (wrap w) = Exited 1"
    and "stderr (snd (wrap w)) =
        stderr w @ ''Wrap requires at least an external program to run'' @ [LF]"
    by (simp_all add: wrap_def print_defs)
next
  assume run: "execargs w = prog # args \<and> ensureSecrets w = (Returned (), w1) \<and>
    decrypt w1 = (Returned txt, w2) \<and>
    system prog True args (insertEnvironment (parseEnvironment txt) w2) = ((out, err, r), w3)"
  then have "execargs w2 = prog # args"
    using ensureSecrets_execargs [of w] decrypt_execargs [of w1]
    by simp
  then have args: "execargs (insertEnvironment (parseEnvironment txt) w2) = prog # args"
    by (simp add: insertEnvironment_def)
  from run args show "fst (wrap w) = Returned ()"
    by (simp add: wrap_def Let_def split: option.splits)
  from run args show "snd (wrap w) =
        (case r of
           None \<Rightarrow> w3
         | Some e \<Rightarrow>
             w3\<lparr>stderr := stderr w3 @ ''Error executing external command:  '' @ errorText e @ [LF]\<rparr>)"
    by (simp add: wrap_def Let_def print_defs split: option.splits)
qed

theorem wrap_missing_command_and_child_failure_witness:
  "execargs noStore = [] \<and> fst (wrap noStore) = Exited 1 \<and>
   stderr (snd (wrap noStore)) = ''Wrap requires at least an external program to run\<newline>'' \<and>
   execargs wrapFalse = ''false'' # [] \<and>
   fst (ensureSecrets wrapFalse) = Returned () \<and>
   fst (decrypt (snd (ensureSecrets wrapFalse))) = Returned ''A=1\<newline>B=2'' \<and>
   fst (system ''false'' True []
          (insertEnvironment (parseEnvironment ''A=1\<newline>B=2'')
             (snd (decrypt (snd (ensureSecrets wrapFalse)))))) =
     ([], [], Some (Err ''exit status 1'')) \<and>
   fst (wrap wrapFalse) = Returned () \<and>
   stderr (snd (wrap wrapFalse)) = ''Error executing external command:  exit status 1\<newline>''"
proof -
  let ?w1 = "snd (ensureSecrets wrapFalse)"
  let ?w2 = "snd (decrypt ?w1)"
  let ?run = "system ''false'' True [] (insertEnvironment (parseEnvironment ''A=1\<newline>B=2'') ?w2)"
  have none: "execargs noStore = []" and quiet: "stderr noStore = []"
    by (simp_all add: noStore_def)
  have args: "execargs wrapFalse = ''false'' # []"
    by (simp add: wrapFalse_def withStore_def noStore_def)
  have 1: "fst (ensureSecrets wrapFalse) = Returned ()"
    by code_simp
  have 2: "fst (decrypt ?w1) = Returned ''A=1\<newline>B=2''"
    by code_simp
  have 3: "fst ?run = ([], [], Some (Err ''exit status 1''))"
    by code_simp
  have 4: "stderr (snd ?run) = []"
    by code_simp
  have steps: "ensureSecrets wrapFalse = (Returned (), ?w1)"
    "decrypt ?w1 = (Returned ''A=1\<newline>B=2'', ?w2)"
    "?run = (([], [], Some (Err ''exit status 1'')), snd ?run)"
    using 1 2 3 by (simp_all add: prod_eq_iff)
  have missing: "fst (wrap noStore) = Exited 1 \<and>
      stderr (snd (wrap noStore)) = ''Wrap requires at least an external program to run\<newline>''"
    using wrap_missing_command_and_child_failure [of noStore] none quiet
    by (simp add: LF_def)
  have child: "fst (wrap wrapFalse) = Returned () \<and>
      stderr (snd (wrap wrapFalse)) = ''Error executing external command:  exit status 1\<newline>''"
    using wrap_missing_command_and_child_failure
      [of wrapFalse "''false''" "[]" ?w1 "''A=1\<newline>B=2''" ?w2 "[]" "[]"
        "Some (Err ''exit status 1'')" "snd ?run"]
      args steps 4
    by (simp add: LF_def)
  from none args 1 2 3 missing child show ?thesis
    by blast
qed

text \<open>
  Claim C1, on the code. When the editor exits with a non-zero status, \<^verbatim>\<open>edit\<close>
  reports the error and ends the process with status 1 without calling \<^verbatim>\<open>cleanup\<close>:
  no removal of the plaintext file is in the log of the run, and the file is still on disk
  with the decrypted secrets in it.
\<close>

theorem editor_failure_leaves_plaintext:
  "fst (edit editorFails) = Exited 1 \<and>
   files (snd (edit editorFails)) ''/tmp/unseal.0001abff'' =
     Some \<lparr>content = ''A=1\<newline>B=2'', perm = mode\<rparr> \<and>
   stderr (snd (edit editorFails)) = ''Error editing secrets file:  exit status 1\<newline>'' \<and>
   SysRemove ''/tmp/unseal.0001abff'' \<notin> set (map fst (calls (snd (edit editorFails))))"
  by code_simp

section \<open>Properties of the install step\<close>

text \<open>
  What a failed \<^verbatim>\<open>copyFile\<close> has done: either the rename and the read failed and no
  file has changed, or the write failed and the removal of \<open>newpath\<close> was tried.
\<close>

lemma copyFile_failed:
  assumes "copyFile oldpath newpath w = (Some e, w')"
  shows "(\<exists>e1. calls w' = calls w @ [(SysRename oldpath newpath, Some e1), (SysReadFile oldpath, Some e)] \<and>
            files w' = files w) \<or>
         (\<exists>e1 d r. files w oldpath = Some d \<and>
            calls w' = calls w @ [(SysRename oldpath newpath, Some e1), (SysReadFile oldpath, None),
                                  (SysWriteFile newpath (content d) mode, Some e), (SysRemove newpath, r)] \<and>
            (\<forall>p. p \<noteq> newpath \<longrightarrow> files w' p = files w p) \<and>
            (r = None \<longrightarrow> files w' newpath = None) \<and>
            (r \<noteq> None \<longrightarrow>
               files w' newpath = files w newpath \<or>
               (\<exists>k. files w' newpath = Some \<lparr>content = take k (content d), perm = permAt newpath mode w\<rparr>)))"
  using assms
  apply (simp add: copyFile_def call_defs permAt_def createPerm_def split: option.splits prod.splits sum.splits fault.splits if_splits)
  apply auto
  done



text \<open>
  Claim C2, as the code has it. When \<^verbatim>\<open>copyFile\<close> fails, the rename has failed, and
  then one of two things has happened. Either the read of the ciphertext failed too, and
  then no file has changed: the store is byte for byte what it was. Or the ciphertext was
  read and the write to the store path failed; then the removal of the store path has been
  tried, every other path is unchanged, and the store path is absent when the removal
  succeeded, and otherwise is what it was (the write could not open it) or holds the first
  bytes of the new ciphertext.
\<close>

theorem install_failure_store:
  assumes "copyFile oldpath newpath w = (Some e, w')"
  shows "(\<exists>e1. calls w' = calls w @ [(SysRename oldpath newpath, Some e1), (SysReadFile oldpath, Some e)] \<and>
            files w' = files w) \<or>
         (\<exists>e1 d r. files w oldpath = Some d \<and>
            calls w' = calls w @ [(SysRename oldpath newpath, Some e1), (SysReadFile oldpath, None),
                                  (SysWriteFile newpath (content d) mode, Some e), (SysRemove newpath, r)] \<and>
            (\<forall>p. p \<noteq> newpath \<longrightarrow> files w' p = files w p) \<and>
            (r = None \<longrightarrow> files w' newpath = None) \<and>
            (r \<noteq> None \<longrightarrow>
               files w' newpath = files w newpath \<or>
               (\<exists>k. files w' newpath = Some \<lparr>content = take k (content d), perm = permAt newpath mode w\<rparr>)))"
  using assms by (rule copyFile_failed)

theorem install_failure_store_witness:
  "copyFile ''/tmp/unseal.0001abff.gpg'' ''/home/u/.secrets/ci.gpg'' staged =
     (Some (Err ''no space left on device''),
      snd (copyFile ''/tmp/unseal.0001abff.gpg'' ''/home/u/.secrets/ci.gpg'' staged)) \<and>
   files (snd (copyFile ''/tmp/unseal.0001abff.gpg'' ''/home/u/.secrets/ci.gpg'' staged))
     ''/tmp/unseal.0001abff.gpg'' = files staged ''/tmp/unseal.0001abff.gpg''"
proof -
  let ?w' = "snd (copyFile ''/tmp/unseal.0001abff.gpg'' ''/home/u/.secrets/ci.gpg'' staged)"
  have "fst (copyFile ''/tmp/unseal.0001abff.gpg'' ''/home/u/.secrets/ci.gpg'' staged) =
      Some (Err ''no space left on device'')"
    by code_simp
  then have fails: "copyFile ''/tmp/unseal.0001abff.gpg'' ''/home/u/.secrets/ci.gpg'' staged =
      (Some (Err ''no space left on device''), ?w')"
    by (simp add: prod_eq_iff)
  have "files ?w' ''/tmp/unseal.0001abff.gpg'' = files staged ''/tmp/unseal.0001abff.gpg''"
    using install_failure_store [OF fails] by auto
  with fails show ?thesis
    by blast
qed

text \<open>
  The claim as the specification states it fails: the store exists, the install fails
  (rename across devices, then a write that fails), and the store file is gone.
\<close>

theorem install_failure_loses_store:
  "files staged ''/home/u/.secrets/ci.gpg'' =
     Some \<lparr>content = ''sealed:A=1\<newline>B=2\<newline>'', perm = 384\<rparr> \<and>
   fst (copyFile ''/tmp/unseal.0001abff.gpg'' ''/home/u/.secrets/ci.gpg'' staged) =
     Some (Err ''no space left on device'') \<and>
   files (snd (copyFile ''/tmp/unseal.0001abff.gpg'' ''/home/u/.secrets/ci.gpg'' staged))
     ''/home/u/.secrets/ci.gpg'' = None"
  by code_simp

text \<open>No function of the program changes the path of the store.\<close>

lemma calls_secretsFile [simp]:
  "secretsFile (snd (os_Lstat p w)) = secretsFile w"
  "secretsFile (snd (os_Create p w)) = secretsFile w"
  "secretsFile (snd (file_Chmod p m w)) = secretsFile w"
  "secretsFile (snd (file_WriteString p s w)) = secretsFile w"
  "secretsFile (file_Close p w) = secretsFile w"
  "secretsFile (snd (os_Remove p w)) = secretsFile w"
  "secretsFile (snd (os_Rename p q w)) = secretsFile w"
  "secretsFile (snd (ioutil_ReadFile p w)) = secretsFile w"
  "secretsFile (snd (ioutil_WriteFile p s m w)) = secretsFile w"
  "secretsFile (snd (rand_Read n w)) = secretsFile w"
  "secretsFile (snd (system c b a w)) = secretsFile w"
  "secretsFile (Println l w) = secretsFile w"
  "secretsFile (Fprintln_Stderr l w) = secretsFile w"
  by (simp_all add: call_defs print_defs system_def Let_def
      split: option.splits fault.splits prod.splits proc_outcome.splits)

lemma fileExists_secretsFile [simp]: "secretsFile (snd (fileExists p w)) = secretsFile w"
  by (simp add: fileExists_def split_beta split: option.splits)

lemma decryptFile_secretsFile [simp]: "secretsFile (snd (decryptFile w)) = secretsFile w"
  by (simp add: decryptFile_def gpg_def split_beta split: bool.splits option.splits)

lemma writeTmpFile_secretsFile [simp]: "secretsFile (snd (writeTmpFile c w)) = secretsFile w"
  by (simp add: writeTmpFile_def randChars_def Let_def split_beta split: option.splits)

lemma editFile_secretsFile [simp]: "secretsFile (snd (editFile f w)) = secretsFile w"
  by (simp add: editFile_def Let_def split_beta)

lemma cleanup_secretsFile [simp]: "secretsFile (cleanup f w) = secretsFile w"
  by (simp add: cleanup_def split_beta split: option.splits)






section \<open>Properties of the temporary file\<close>

lemma hextable_inj:
  assumes "a < 16" and "b < 16" and "hextable ! a = hextable ! b"
  shows "a = b"
proof -
  have "distinct hextable" and "length hextable = 16"
    by (simp_all add: hextable_def)
  with assms show ?thesis
    by (simp add: nth_eq_iff_index_eq)
qed

lemma hex_byte_inj:
  assumes "[hextable ! ((of_char a :: nat) div 16), hextable ! ((of_char a :: nat) mod 16)] =
           [hextable ! ((of_char b :: nat) div 16), hextable ! ((of_char b :: nat) mod 16)]"
  shows "a = b"
proof -
  have a: "(of_char a :: nat) < 256" and b: "(of_char b :: nat) < 256"
    by (rule nat_of_char_less_256)+
  then have "(of_char a :: nat) div 16 < 16" and "(of_char b :: nat) div 16 < 16"
    by (simp_all add: div_less_iff_less_mult)
  with assms have hi: "(of_char a :: nat) div 16 = of_char b div 16"
    by (auto intro: hextable_inj)
  have "(of_char a :: nat) mod 16 < 16" and "(of_char b :: nat) mod 16 < 16"
    by simp_all
  with assms have lo: "(of_char a :: nat) mod 16 = of_char b mod 16"
    by (auto intro: hextable_inj)
  from hi lo have "(of_char a :: nat) = of_char b"
    by (metis div_mult_mod_eq)
  then show ?thesis
    by simp
qed

lemma hex_EncodeToString_inj:
  "length a = length b \<Longrightarrow> hex_EncodeToString a = hex_EncodeToString b \<Longrightarrow> a = b"
proof (induction a b rule: list_induct2)
  case Nil
  then show ?case by simp
next
  case (Cons x xs y ys)
  from Cons.prems
  have byte: "[hextable ! ((of_char x :: nat) div 16), hextable ! ((of_char x :: nat) mod 16)] =
           [hextable ! ((of_char y :: nat) div 16), hextable ! ((of_char y :: nat) mod 16)]"
    and rest: "hex_EncodeToString xs = hex_EncodeToString ys"
    by (simp_all add: hex_EncodeToString_def)
  from byte have "x = y"
    by (rule hex_byte_inj)
  with rest Cons.IH show ?case
    by simp
qed

text \<open>
  The last element of a cleaned path: a name without a slash that is neither empty nor
  \<^verbatim>\<open>.\<close> nor \<^verbatim>\<open>..\<close> is kept as it is behind the cleaned directory, so
  \<^verbatim>\<open>filepath.Join\<close> of one directory with two such names gives two paths.
\<close>

lemma splitLoop_snoc:
  "c \<notin> set n \<Longrightarrow> count_list a c < k \<Longrightarrow>
   splitLoop k (a @ c # n) [c] = splitLoop (k - 1) a [c] @ [n]"
proof (induction k arbitrary: a)
  case 0
  then show ?case by simp
next
  case (Suc k)
  show ?case
  proof (cases "c \<in> set a")
    case False
    with Suc.prems show ?thesis
      by (simp add: Index_char_first splitLoop_no_sep)
  next
    case True
    then obtain x y where a: "a = x @ c # y" and x: "c \<notin> set x"
      by (auto dest: split_list_first)
    from a x Suc.prems have "count_list y c < k"
      by simp
    with Suc.IH [of y] Suc.prems(1) have IH: "splitLoop k (y @ c # n) [c] = splitLoop (k - 1) y [c] @ [n]"
      by simp
    from \<open>count_list y c < k\<close> obtain j where k: "k = Suc j"
      by (cases k) auto
    from x have "Index ((x @ c # y) @ c # n) [c] = Some (length x)"
      using Index_char_first [of c x "y @ c # n"] by simp
    with a x IH k show ?thesis
      by (simp add: Index_char_first)
  qed
qed

lemma splitLoop_fuel:
  "count_list s c \<le> k \<Longrightarrow> count_list s c \<le> j \<Longrightarrow> splitLoop k s [c] = splitLoop j s [c]"
proof (induction k arbitrary: s j)
  case 0
  then have "c \<notin> set s"
    by (simp add: count_list_0_iff)
  then show ?case
    by (simp add: splitLoop_no_sep)
next
  case (Suc k)
  show ?case
  proof (cases "c \<in> set s")
    case False
    then show ?thesis
      by (simp add: splitLoop_no_sep del: splitLoop.simps)
  next
    case True
    then obtain x y where s: "s = x @ c # y" and x: "c \<notin> set x"
      by (auto dest: split_list_first)
    with Suc.prems obtain i where j: "j = Suc i" and "count_list y c \<le> i" and "count_list y c \<le> k"
      by (cases j) auto
    with Suc.IH [of y i] s x show ?thesis
      by (simp add: Index_char_first)
  qed
qed

lemma count_list_le_length: "count_list s c \<le> length s"
  by (induction s) auto

lemma Split_snoc:
  assumes "c \<notin> set n"
  shows "Split (a @ c # n) [c] = Split a [c] @ [n]"
proof -
  have "count_list a c < length (a @ c # n)"
    using count_list_le_length [of a c] by simp
  then have "splitLoop (length (a @ c # n)) (a @ c # n) [c] =
      splitLoop (length (a @ c # n) - 1) a [c] @ [n]"
    using assms by (rule splitLoop_snoc [rotated])
  also have "splitLoop (length (a @ c # n) - 1) a [c] = splitLoop (length a) a [c]"
    using count_list_le_length [of a c] by (intro splitLoop_fuel) simp_all
  finally show ?thesis
    by (simp add: Split_def SplitN_def)
qed

lemma Join_snoc: "Join (st @ [n]) sep = (if st = [] then n else Join st sep @ sep @ n)"
  by (induction st sep rule: Join.induct) auto

lemma Clean_snoc:
  assumes "d \<noteq> []" and "n \<noteq> []" "n \<noteq> ''.''" "n \<noteq> ''..''" "CHR ''/'' \<notin> set n"
  shows "Clean (d @ ''/'' @ n) =
     (let st = foldl (cleanStep (hd d = CHR ''/'')) [] (Split d ''/'')
      in (if hd d = CHR ''/'' then ''/'' else []) @ (if st = [] then [] else Join st ''/'' @ ''/'') @ n)"
proof -
  have sp: "Split (d @ ''/'' @ n) ''/'' = Split d ''/'' @ [n]"
    using Split_snoc [of "CHR ''/''" n d] assms by simp
  have "foldl (cleanStep r) [] (Split d ''/'' @ [n]) = foldl (cleanStep r) [] (Split d ''/'') @ [n]" for r
    using assms by (simp add: cleanStep_def)
  with sp assms(1) show ?thesis
    by (simp add: Clean_def Let_def Join_snoc)
qed

lemma filepath_Join_inj:
  assumes "d \<noteq> []"
    and "n1 \<noteq> []" "n1 \<noteq> ''.''" "n1 \<noteq> ''..''" "CHR ''/'' \<notin> set n1"
    and "n2 \<noteq> []" "n2 \<noteq> ''.''" "n2 \<noteq> ''..''" "CHR ''/'' \<notin> set n2"
    and "filepath_Join [d, n1] = filepath_Join [d, n2]"
  shows "n1 = n2"
proof -
  from assms(1) have "filepath_Join [d, n] = Clean (d @ ''/'' @ n)" for n
    by (simp add: filepath_Join_def)
  with assms(10) have "Clean (d @ ''/'' @ n1) = Clean (d @ ''/'' @ n2)"
    by simp
  then show ?thesis
    unfolding Clean_snoc [OF assms(1-5)] Clean_snoc [OF assms(1) assms(6-9)]
    by (simp add: Let_def)
qed


lemma hex_digits: "set (hex_EncodeToString bs) \<subseteq> set hextable"
proof -
  have "(of_char b :: nat) div 16 < length hextable" and "(of_char b :: nat) mod 16 < length hextable" for b
    using nat_of_char_less_256 [of b] by (simp_all add: hextable_def div_less_iff_less_mult)
  then show ?thesis
    by (auto simp: hex_EncodeToString_def)
qed

lemma tmp_name_no_slash: "CHR ''/'' \<notin> set (''unseal.'' @ hex_EncodeToString bs)"
proof -
  have "CHR ''/'' \<notin> set hextable"
    by (simp add: hextable_def)
  with hex_digits [of bs] show ?thesis
    by auto
qed


lemma tmp_path_inj:
  assumes "length a = length b"
    and "filepath_Join [os_TempDir w, ''unseal.'' @ hex_EncodeToString a] =
         filepath_Join [os_TempDir w, ''unseal.'' @ hex_EncodeToString b]"
  shows "a = b"
proof -
  have dir: "os_TempDir w \<noteq> []"
    by (simp add: os_TempDir_def Let_def)
  have "''unseal.'' @ hex_EncodeToString a = ''unseal.'' @ hex_EncodeToString b"
  proof (rule filepath_Join_inj [OF dir])
    show "CHR ''/'' \<notin> set (''unseal.'' @ hex_EncodeToString a)"
      and "CHR ''/'' \<notin> set (''unseal.'' @ hex_EncodeToString b)"
      by (rule tmp_name_no_slash)+
    show "filepath_Join [os_TempDir w, ''unseal.'' @ hex_EncodeToString a] =
         filepath_Join [os_TempDir w, ''unseal.'' @ hex_EncodeToString b]"
      by (rule assms(2))
  qed simp_all
  with assms(1) show ?thesis
    by (simp add: hex_EncodeToString_inj)
qed

text \<open>
  Claim C9, as the code has it. When \<^verbatim>\<open>writeTmpFile\<close> returns a file, the file at
  its path holds the contents and has mode 0600 (384); its name is \<^verbatim>\<open>unseal.\<close>
  followed by the hexadecimal digits of four bytes taken from the random source, in the
  temporary directory; and in one temporary directory different bytes give different
  paths. Nothing more makes the name unique.
\<close>

theorem temporary_file_mode_and_name:
  assumes "writeTmpFile contents w = (Returned (Inr f), w')"
  shows "files w' f = Some \<lparr>content = contents, perm = mode\<rparr> \<and> mode = 384 \<and>
         4 \<le> length (entropy w) \<and>
         f = filepath_Join [os_TempDir w, ''unseal.'' @ hex_EncodeToString (take 4 (entropy w))] \<and>
         (\<forall>a b. length a = length b \<and> a \<noteq> b \<longrightarrow>
            filepath_Join [os_TempDir w, ''unseal.'' @ hex_EncodeToString a] \<noteq>
            filepath_Join [os_TempDir w, ''unseal.'' @ hex_EncodeToString b])"
proof -
  have inj: "\<forall>a b. length a = length b \<and> a \<noteq> b \<longrightarrow>
            filepath_Join [os_TempDir w, ''unseal.'' @ hex_EncodeToString a] \<noteq>
            filepath_Join [os_TempDir w, ''unseal.'' @ hex_EncodeToString b]"
    using tmp_path_inj by blast
  have m: "mode = 384"
    by (simp add: mode_def)
  from assms have "files w' f = Some \<lparr>content = contents, perm = mode\<rparr> \<and>
         4 \<le> length (entropy w) \<and>
         f = filepath_Join [os_TempDir w, ''unseal.'' @ hex_EncodeToString (take 4 (entropy w))]"
    by (auto simp: writeTmpFile_def randChars_def call_defs os_TempDir_def os_Getenv_def
        print_defs Let_def
        split: option.splits fault.splits if_splits)
  with inj m show ?thesis
    by blast
qed

theorem temporary_file_mode_and_name_witness:
  "fst (writeTmpFile ''A=1'' noStore) = Returned (Inr ''/tmp/unseal.0001abff'') \<and>
   files (snd (writeTmpFile ''A=1'' noStore)) ''/tmp/unseal.0001abff'' =
     Some \<lparr>content = ''A=1'', perm = 384\<rparr>"
proof -
  let ?w' = "snd (writeTmpFile ''A=1'' noStore)"
  have 1: "fst (writeTmpFile ''A=1'' noStore) = Returned (Inr ''/tmp/unseal.0001abff'')"
    by code_simp
  then have "writeTmpFile ''A=1'' noStore = (Returned (Inr ''/tmp/unseal.0001abff''), ?w')"
    by (simp add: prod_eq_iff)
  from temporary_file_mode_and_name [OF this]
  have "files ?w' ''/tmp/unseal.0001abff'' = Some \<lparr>content = ''A=1'', perm = mode\<rparr>"
    and "mode = 384"
    by blast+
  then have "files ?w' ''/tmp/unseal.0001abff'' = Some \<lparr>content = ''A=1'', perm = 384\<rparr>"
    by simp
  with 1 show ?thesis
    by blast
qed

text \<open>
  The claim as the specification states it fails: another live plaintext file has the name
  that the random bytes give; \<^verbatim>\<open>writeTmpFile\<close> returns that very name, and the other
  file's contents are replaced.
\<close>

theorem temporary_file_name_collision:
  "files collision ''/tmp/unseal.0001abff'' = Some \<lparr>content = ''OTHER=secret'', perm = 384\<rparr> \<and>
   fst (writeTmpFile ''X=1'' collision) = Returned (Inr ''/tmp/unseal.0001abff'') \<and>
   files (snd (writeTmpFile ''X=1'' collision)) ''/tmp/unseal.0001abff'' =
     Some \<lparr>content = ''X=1'', perm = 384\<rparr>"
  by code_simp

end
